theory Spec2Isabelle
  imports Complex_Main "HOL-Library.Monad_Syntax"
begin

chapter \<open>The program\<close>

section \<open>Errors\<close>

text \<open>
  Every \<open>raise\<close> and every failing \<open>assert\<close> of the Python source is a value of
  \<open>error\<close>; a function that can raise returns \<open>error + 'a\<close> with \<open>Inl\<close> the error.
  The \<open>ValueError\<close>s of the source are told apart by the message they carry.
\<close>

datatype value_error =
    ExactlyOneOfInputIdsOrEmbeds
  | ImageFeaturesMismatch
  | TimeSeriesFeaturesMismatch
  | SpecifySignalsOrEmbeds
  | WrongSignalsSize
  | ChannelLengthMismatch

datatype error =
    ValueError value_error
  | AssertionError
  | RuntimeError
  | IndexError
  | TypeError
  | AttributeError
  | ZeroDivisionError
  | KeyError

section \<open>make_pad_mask\<close>

text \<open>
  \<^verbatim>\<open>lengths.max()\<close> raises on a tensor without elements; \<^verbatim>\<open>torch.arange(0, max_len)\<close> is
  empty when \<open>max_len \<le> 0\<close>.  The argument is a 1-D integer tensor, so the assertion on
  \<^verbatim>\<open>lengths.ndim\<close> holds by the type of the model's argument.
\<close>

definition tensor_max :: "int list \<Rightarrow> error + int" where
  "tensor_max xs = (case xs of [] \<Rightarrow> Inl RuntimeError | y # ys \<Rightarrow> Inr (fold max ys y))"

definition arange :: "int \<Rightarrow> int list" where
  "arange m = map int [0..<nat m]"

definition make_pad_mask :: "int list \<Rightarrow> error + bool list list" where
  "make_pad_mask lengths =
     (case tensor_max lengths of
        Inl e \<Rightarrow> Inl e
      | Inr max_len \<Rightarrow>
          (let n = length lengths;
               seq_range = arange max_len;
               expaned_lengths = replicate n seq_range
           in Inr (map2 (\<lambda>row l. map (\<lambda>j. j \<ge> l) row) expaned_lengths lengths)))"

section \<open>Attention masks of the time-series encoder\<close>










section \<open>Shapes of float tensors and of the library layers\<close>

text \<open>
  A tensor of floats is represented by its shape, the list of its dimensions; integer and
  boolean tensors (lengths, token ids, masks) are represented by their contents.  The layers
  of \<^verbatim>\<open>torch.nn\<close> are not code of this repository; they enter through the effect on the
  shape that PyTorch documents for them, and raise where PyTorch raises on a shape that
  does not fit:
  \<^item> \<^verbatim>\<open>nn.Linear(i, o)\<close> and \<^verbatim>\<open>nn.LayerNorm(d)\<close> act on the last dimension;
  \<^item> \<^verbatim>\<open>nn.Conv1d(i, o, kernel_size, stride, padding)\<close> maps \<open>(N, i, L)\<close> to
    \<open>(N, o, \<lfloor>(L + 2 * padding - kernel_size) / stride\<rfloor> + 1)\<close>, and raises when the
    padded input is shorter than the kernel;
  \<^item> activations (\<^verbatim>\<open>relu\<close>, \<^verbatim>\<open>gelu\<close>, the entries of \<^verbatim>\<open>ACT2FN\<close>), dropout and the
    Whisper encoder layers keep the shape.
\<close>

type_synonym shape = "nat list"

definition linear_layer :: "nat \<Rightarrow> nat \<Rightarrow> shape \<Rightarrow> error + shape" where
  "linear_layer in_features out_features s =
     (if s \<noteq> [] \<and> last s = in_features then Inr (butlast s @ [out_features])
      else Inl RuntimeError)"

definition layer_norm :: "nat \<Rightarrow> shape \<Rightarrow> error + shape" where
  "layer_norm normalized_shape s =
     (if s \<noteq> [] \<and> last s = normalized_shape then Inr s else Inl RuntimeError)"

definition activation :: "shape \<Rightarrow> error + shape" where
  "activation s = Inr s"

definition conv_out_len :: "nat \<Rightarrow> nat \<Rightarrow> nat \<Rightarrow> nat \<Rightarrow> nat" where
  "conv_out_len l kernel_size stride padding = (l + 2 * padding - kernel_size) div stride + 1"

record conv1d =
  in_channels :: nat
  out_channels :: nat
  kernel_size :: nat
  stride :: nat
  padding :: nat

definition conv1d_forward :: "conv1d \<Rightarrow> shape \<Rightarrow> error + shape" where
  "conv1d_forward c s =
     (case s of
        [n, ch, l] \<Rightarrow>
          (if ch = in_channels c \<and> 0 < stride c \<and> 0 < kernel_size c
              \<and> kernel_size c \<le> l + 2 * padding c
           then Inr [n, out_channels c, conv_out_len l (kernel_size c) (stride c) (padding c)]
           else Inl RuntimeError)
      | _ \<Rightarrow> Inl RuntimeError)"


definition transpose12 :: "shape \<Rightarrow> error + shape" where
  "transpose12 s = (if 3 \<le> length s then Inr (s[1 := s ! 2, 2 := s ! 1]) else Inl IndexError)"

text \<open>Sequencing of calls that may raise: the first error ends the computation.\<close>

definition ebind :: "error + 'a \<Rightarrow> ('a \<Rightarrow> error + 'b) \<Rightarrow> error + 'b" where
  "ebind r f = (case r of Inl e \<Rightarrow> Inl e | Inr v \<Rightarrow> f v)"

section \<open>Configuration of the time-series encoder\<close>

text \<open>
  \<^verbatim>\<open>InternTimeSeriesEncoderConfig\<close>: the fields the class itself sets, and the fields of its
  base class \<^verbatim>\<open>WhisperConfig\<close> that the encoder reads (their defaults are the library's and
  are left open).
\<close>

record InternTimeSeriesEncoderConfig =
  ts_adapt_in_dim :: nat
  ts_adapt_out_dim :: nat
  ts_hidden_dim :: nat
  ts_cnn_channels :: "nat list"
  ts_cnn_kernel_sizes :: "nat list"
  ts_cnn_strides :: "nat list"
  ts_cnn_paddings :: "nat list"
  ts_concat_subsampling_in_channels :: nat
  ts_concat_subsampling_concat_size :: nat
  use_flash_attn :: bool
  d_model :: nat
  num_mel_bins :: nat
  max_source_positions :: nat
  use_return_dict :: bool

section \<open>ConcatSubsampling and Conv1dSubsampling\<close>

record ConcatSubsampling =
  cs_in_channels :: nat
  cs_out_channels :: nat

definition ConcatSubsampling_init :: "nat \<Rightarrow> nat \<Rightarrow> ConcatSubsampling" where
  "ConcatSubsampling_init in_ch concat_size =
     \<lparr>cs_in_channels = in_ch, cs_out_channels = in_ch * concat_size\<rparr>"

text \<open>
  \<^verbatim>\<open>x[:, ::2, :]\<close> keeps \<open>\<lceil>t / 2\<rceil>\<close> frames and \<^verbatim>\<open>x[:, 1::2, :]\<close> keeps \<open>\<lfloor>t / 2\<rfloor>\<close>;
  \<^verbatim>\<open>torch.cat(..., dim=2)\<close> raises unless the two agree in the other dimensions.
  \<open>x_lens\<close> is an integer tensor, \<open>None\<close> when the caller passed none (the arithmetic on it
  then raises \<open>TypeError\<close>); \<^verbatim>\<open>//\<close> is floor division, as \<open>div\<close> on \<open>int\<close> is.
\<close>

definition cat_dim2 :: "shape \<Rightarrow> shape \<Rightarrow> error + shape" where
  "cat_dim2 a b =
     (case (a, b) of
        ([b1, t1, c1], [b2, t2, c2]) \<Rightarrow>
          (if b1 = b2 \<and> t1 = t2 then Inr [b1, t1, c1 + c2] else Inl RuntimeError)
      | _ \<Rightarrow> Inl RuntimeError)"

definition ConcatSubsampling_forward ::
  "ConcatSubsampling \<Rightarrow> shape \<Rightarrow> int list option \<Rightarrow> error + shape \<times> int list" where
  "ConcatSubsampling_forward self x x_lens =
     (case x of
        [b, t, c] \<Rightarrow>
          (let t = (if t mod 2 \<noteq> 0 then t - 1 else t);
               even_frames = [b, (t + 1) div 2, c];
               odd_frames = [b, t div 2, c]
           in case cat_dim2 even_frames odd_frames of
                Inl e \<Rightarrow> Inl e
              | Inr x \<Rightarrow>
                  (case x_lens of
                     None \<Rightarrow> Inl TypeError
                   | Some ls \<Rightarrow> Inr (x, map (\<lambda>l. l div 2) ls)))
      | _ \<Rightarrow> Inl IndexError)"

record Conv1dSubsampling =
  channels :: "nat list"
  kernel_sizes :: "nat list"
  strides :: "nat list"
  paddings :: "nat list"
  concat_in_channels :: nat
  concat_size :: nat
  n_layers :: int
  layers :: "conv1d list"
  subsampling :: ConcatSubsampling

definition Conv1dSubsampling_init :: "'a InternTimeSeriesEncoderConfig_scheme \<Rightarrow> error + Conv1dSubsampling" where
  "Conv1dSubsampling_init config =
     (let chs = ts_cnn_channels config;
          ks = ts_cnn_kernel_sizes config;
          ss = ts_cnn_strides config;
          ps = ts_cnn_paddings config;
          n = int (length chs) - 1
      in if \<not> (length ks = length ss \<and> length ss = length ps \<and> int (length ps) = n)
         then Inl (ValueError ChannelLengthMismatch)
         else Inr \<lparr>channels = chs, kernel_sizes = ks, strides = ss, paddings = ps,
                   concat_in_channels = ts_concat_subsampling_in_channels config,
                   concat_size = ts_concat_subsampling_concat_size config,
                   n_layers = n,
                   layers = map (\<lambda>i. \<lparr>in_channels = chs ! i, out_channels = chs ! (i + 1),
                                         kernel_size = ks ! i, stride = ss ! i, padding = ps ! i\<rparr>)
                                [0..<nat n],
                   subsampling = ConcatSubsampling_init (ts_concat_subsampling_in_channels config)
                                   (ts_concat_subsampling_concat_size config)\<rparr>)"

fun conv_relu_layers :: "conv1d list \<Rightarrow> shape \<Rightarrow> error + shape" where
  "conv_relu_layers [] x = Inr x"
| "conv_relu_layers (layer # rest) x =
     ebind (conv1d_forward layer x) (\<lambda>x. ebind (activation x) (conv_relu_layers rest))"

definition Conv1dSubsampling_forward ::
  "Conv1dSubsampling \<Rightarrow> shape \<Rightarrow> int list option \<Rightarrow> error + shape \<times> int list" where
  "Conv1dSubsampling_forward self x x_lens =
     ebind (transpose12 x) (\<lambda>x.
     ebind (conv_relu_layers (layers self) x) (\<lambda>x.
     ebind (transpose12 x) (\<lambda>x.
     ebind (case x_lens of
              None \<Rightarrow> Inl TypeError
            | Some ls \<Rightarrow> Inr (map (\<lambda>l. ((((l + 1) div 2 + 3) div 4 + 3) div 4 + 4) div 5) ls)) (\<lambda>x_lens.
     ConcatSubsampling_forward (subsampling self) x (Some x_lens)))))"

section \<open>InternTimeSeriesEncoder and InternTimeSeriesModel\<close>

record InternTimeSeriesEncoder =
  embed_dim :: nat
  enc_num_mel_bins :: nat
  enc_max_source_positions :: nat
  conv1 :: conv1d
  conv2 :: conv1d
  mask_type :: "string option"
  chunk_length :: "int option"
  adapt_in :: "nat \<times> nat"
  adapt_out :: "nat \<times> nat"


definition define_masktype :: "InternTimeSeriesEncoder \<Rightarrow> string option \<Rightarrow> int option \<Rightarrow> InternTimeSeriesEncoder" where
  "define_masktype self masktype chunk_len = self\<lparr>mask_type := masktype, chunk_length := chunk_len\<rparr>"









text \<open>
  The configuration that \<^verbatim>\<open>InternTimeSeriesEncoderConfig()\<close> builds when no argument of
  its own is given; the four values inherited from \<^verbatim>\<open>WhisperConfig\<close> are arguments here.
\<close>

definition default_ts_config :: "nat \<Rightarrow> nat \<Rightarrow> nat \<Rightarrow> bool \<Rightarrow> InternTimeSeriesEncoderConfig" where
  "default_ts_config dm mel maxpos rd =
     \<lparr>ts_adapt_in_dim = 256, ts_adapt_out_dim = 1024, ts_hidden_dim = 1024,
      ts_cnn_channels = [1, 32, 64, 128, 128],
      ts_cnn_kernel_sizes = [3, 5, 5, 5],
      ts_cnn_strides = [2, 4, 4, 5],
      ts_cnn_paddings = [1, 2, 2, 2],
      ts_concat_subsampling_in_channels = 128,
      ts_concat_subsampling_concat_size = 2,
      use_flash_attn = False,
      d_model = dm, num_mel_bins = mel, max_source_positions = maxpos, use_return_dict = rd\<rparr>"

text \<open>
  The update of \<open>x_lens\<close> in \<^verbatim>\<open>Conv1dSubsampling.forward\<close>, on natural numbers.
\<close>

definition closed_form :: "nat \<Rightarrow> nat" where
  "closed_form t = ((((t + 1) div 2 + 3) div 4 + 3) div 4 + 4) div 5"


section \<open>Configuration classes\<close>

text \<open>
  A dictionary given to a configuration class is represented by the values it holds for the
  keyword arguments that the class names (\<open>None\<close> for a key that is absent); the other keys
  go to the base class, which stores them.  The defaults of the base class
  \<^verbatim>\<open>WhisperConfig\<close> are the library's and are arguments of the model.
\<close>

record whisper_defaults =
  wd_d_model :: nat
  wd_num_mel_bins :: nat
  wd_max_source_positions :: nat
  wd_use_return_dict :: bool

record ts_kwargs =
  kw_ts_adapt_in_dim :: "nat option"
  kw_ts_adapt_out_dim :: "nat option"
  kw_ts_hidden_dim :: "nat option"
  kw_ts_cnn_channels :: "nat list option"
  kw_ts_cnn_kernel_sizes :: "nat list option"
  kw_ts_cnn_strides :: "nat list option"
  kw_ts_cnn_paddings :: "nat list option"
  kw_ts_concat_subsampling_in_channels :: "nat option"
  kw_ts_concat_subsampling_concat_size :: "nat option"
  kw_use_flash_attn :: "bool option"
  kw_d_model :: "nat option"
  kw_num_mel_bins :: "nat option"
  kw_max_source_positions :: "nat option"
  kw_return_dict :: "bool option"

definition get_or :: "'a option \<Rightarrow> 'a \<Rightarrow> 'a" where
  "get_or v d = (case v of Some x \<Rightarrow> x | None \<Rightarrow> d)"

definition empty_ts_kwargs :: ts_kwargs where
  "empty_ts_kwargs =
     \<lparr>kw_ts_adapt_in_dim = None, kw_ts_adapt_out_dim = None, kw_ts_hidden_dim = None,
      kw_ts_cnn_channels = None, kw_ts_cnn_kernel_sizes = None, kw_ts_cnn_strides = None,
      kw_ts_cnn_paddings = None, kw_ts_concat_subsampling_in_channels = None,
      kw_ts_concat_subsampling_concat_size = None, kw_use_flash_attn = None,
      kw_d_model = None, kw_num_mel_bins = None, kw_max_source_positions = None,
      kw_return_dict = None\<rparr>"

text \<open>
  \<^verbatim>\<open>InternTimeSeriesEncoderConfig.__init__\<close>, with its two assertions;
  \<^verbatim>\<open>ts_cnn_channels[-1]\<close> raises on an empty list.
\<close>

definition InternTimeSeriesEncoderConfig_init ::
  "whisper_defaults \<Rightarrow> ts_kwargs \<Rightarrow> error + InternTimeSeriesEncoderConfig" where
  "InternTimeSeriesEncoderConfig_init wd kw =
     (let self = \<lparr>ts_adapt_in_dim = get_or (kw_ts_adapt_in_dim kw) 256,
                   ts_adapt_out_dim = get_or (kw_ts_adapt_out_dim kw) 1024,
                   ts_hidden_dim = get_or (kw_ts_hidden_dim kw) 1024,
                   ts_cnn_channels = get_or (kw_ts_cnn_channels kw) [1, 32, 64, 128, 128],
                   ts_cnn_kernel_sizes = get_or (kw_ts_cnn_kernel_sizes kw) [3, 5, 5, 5],
                   ts_cnn_strides = get_or (kw_ts_cnn_strides kw) [2, 4, 4, 5],
                   ts_cnn_paddings = get_or (kw_ts_cnn_paddings kw) [1, 2, 2, 2],
                   ts_concat_subsampling_in_channels = get_or (kw_ts_concat_subsampling_in_channels kw) 128,
                   ts_concat_subsampling_concat_size = get_or (kw_ts_concat_subsampling_concat_size kw) 2,
                   use_flash_attn = get_or (kw_use_flash_attn kw) False,
                   d_model = get_or (kw_d_model kw) (wd_d_model wd),
                   num_mel_bins = get_or (kw_num_mel_bins kw) (wd_num_mel_bins wd),
                   max_source_positions = get_or (kw_max_source_positions kw) (wd_max_source_positions wd),
                   use_return_dict = get_or (kw_return_dict kw) (wd_use_return_dict wd)\<rparr>
      in if ts_adapt_out_dim self \<noteq> ts_hidden_dim self then Inl AssertionError
         else if ts_cnn_channels self = [] then Inl IndexError
         else if ts_concat_subsampling_in_channels self \<noteq> last (ts_cnn_channels self)
         then Inl AssertionError
         else Inr self)"

text \<open>
  \<^verbatim>\<open>InternS1VisionConfig\<close>: of its fields, which are all stored as given, the model keeps
  the hidden size and the two sizes that the constructor turns into pairs.
\<close>

datatype size_arg = SizeInt nat | SizePair nat nat

record InternS1VisionConfig =
  vision_hidden_size :: nat
  image_size :: "nat \<times> nat"
  patch_size :: "nat \<times> nat"

record vision_kwargs =
  kw_hidden_size :: "nat option"
  kw_image_size :: "size_arg option"
  kw_patch_size :: "size_arg option"

definition empty_vision_kwargs :: vision_kwargs where
  "empty_vision_kwargs = \<lparr>kw_hidden_size = None, kw_image_size = None, kw_patch_size = None\<rparr>"

definition to_pair :: "size_arg \<Rightarrow> nat \<times> nat" where
  "to_pair s = (case s of SizePair a b \<Rightarrow> (a, b) | SizeInt a \<Rightarrow> (a, a))"

definition InternS1VisionConfig_init :: "vision_kwargs \<Rightarrow> InternS1VisionConfig" where
  "InternS1VisionConfig_init kw =
     \<lparr>vision_hidden_size = get_or (kw_hidden_size kw) 1024,
      image_size = to_pair (get_or (kw_image_size kw) (SizePair 448 448)),
      patch_size = to_pair (get_or (kw_patch_size kw) (SizePair 14 14))\<rparr>"

text \<open>
  The text backbone's configuration is an instance of a class of the library, chosen through
  \<^verbatim>\<open>CONFIG_MAPPING\<close>; the model keeps the fields that this module reads.  A backbone is a
  mixture-of-experts model when its configuration has the attribute
  \<^verbatim>\<open>output_router_logits\<close> (\<open>None\<close> below: the attribute is absent).
\<close>

record TextConfig =
  hidden_size :: nat
  vocab_size :: nat
  output_router_logits :: "bool option"
  num_experts :: nat
  num_experts_per_tok :: nat
  router_aux_loss_coef :: real

text \<open>
  An argument of \<^verbatim>\<open>InternS1Config.__init__\<close> that stands for a sub-configuration:
  \<open>None\<close>, a dictionary, an instance of the configuration class, or any other object.
\<close>

datatype ('d, 'c) config_arg = ArgNone | ArgDict 'd | ArgConfig 'c | ArgOther

datatype text_attr = TextCfg TextConfig | TextOther

record s1_kwargs =
  kw_image_token_id :: "int option"
  kw_ts_context_token_id :: "int option"
  kw_ts_select_layer :: "int option"
  kw_image_seq_length :: "int option"
  kw_downsample_ratio :: "rat option"
  kw_projector_hidden_act :: "string option"
  kw_vision_feature_layer :: "int option"
  kw_vision_feature_select_strategy :: "string option"

definition empty_s1_kwargs :: s1_kwargs where
  "empty_s1_kwargs =
     \<lparr>kw_image_token_id = None, kw_ts_context_token_id = None, kw_ts_select_layer = None,
      kw_image_seq_length = None, kw_downsample_ratio = None, kw_projector_hidden_act = None,
      kw_vision_feature_layer = None, kw_vision_feature_select_strategy = None\<rparr>"

text \<open>
  An attribute that \<^verbatim>\<open>__init__\<close> never assigns does not exist on the object: reading it
  raises \<open>AttributeError\<close>.  Such an attribute is \<open>None\<close> in the record.  (Neither
  \<^verbatim>\<open>vision_config\<close> nor \<^verbatim>\<open>ts_config\<close> can reach the base class through \<^verbatim>\<open>**kwargs\<close>: they
  are named parameters.)
\<close>

record InternS1Config =
  image_token_id :: int
  ts_context_token_id :: int
  ts_select_layer :: int
  image_seq_length :: int
  downsample_ratio :: rat
  projector_hidden_act :: string
  vision_feature_layer :: int
  vision_feature_select_strategy :: string
  vision_config :: "InternS1VisionConfig option"
  text_config :: text_attr
  ts_config :: "InternTimeSeriesEncoderConfig option"

text \<open>
  \<^verbatim>\<open>InternS1Config.__init__\<close>.  \<open>config_mapping\<close> is the library's \<^verbatim>\<open>CONFIG_MAPPING\<close>: the
  constructor registered for a model type, if any; a text dictionary is its
  \<^verbatim>\<open>model_type\<close> entry, if it has one, and the rest (\<open>no_kwargs\<close> is the empty one).  The statements are kept in the order
  of the source, and each branch does what the source's branch does: the dictionary branch
  for \<open>ts_config\<close> rebinds the local variable only.
\<close>

definition InternS1Config_init ::
  "(string \<Rightarrow> ('k \<Rightarrow> error + TextConfig) option) \<Rightarrow> 'k \<Rightarrow> whisper_defaults
     \<Rightarrow> (vision_kwargs, InternS1VisionConfig) config_arg
     \<Rightarrow> (string option \<times> 'k, TextConfig) config_arg
     \<Rightarrow> (ts_kwargs, InternTimeSeriesEncoderConfig) config_arg
     \<Rightarrow> s1_kwargs \<Rightarrow> error + InternS1Config" where
  "InternS1Config_init config_mapping no_kwargs wd vision_config_arg text_config_arg ts_config_arg kw =
     (let self_vision_config =
            (case vision_config_arg of
               ArgDict d \<Rightarrow> Some (InternS1VisionConfig_init d)
             | ArgConfig c \<Rightarrow> Some c
             | ArgNone \<Rightarrow> Some (InternS1VisionConfig_init empty_vision_kwargs)
             | ArgOther \<Rightarrow> None)
      in ebind (case text_config_arg of
                  ArgDict (mt, d) \<Rightarrow>
                    (case config_mapping (get_or mt ''qwen3_moe'') of
                       None \<Rightarrow> Inl KeyError
                     | Some ctor \<Rightarrow> ebind (ctor d) (\<lambda>c. Inr (TextCfg c)))
                | ArgNone \<Rightarrow>
                    (case config_mapping ''qwen3_moe'' of
                       None \<Rightarrow> Inl KeyError
                     | Some ctor \<Rightarrow> ebind (ctor no_kwargs) (\<lambda>c. Inr (TextCfg c)))
                | ArgConfig c \<Rightarrow> Inr (TextCfg c)
                | ArgOther \<Rightarrow> Inr TextOther) (\<lambda>text_cfg.
         ebind (case ts_config_arg of
                  ArgDict d \<Rightarrow> ebind (InternTimeSeriesEncoderConfig_init wd d) (\<lambda>_. Inr None)
                | ArgConfig c \<Rightarrow> Inr (Some c)
                | ArgNone \<Rightarrow> ebind (InternTimeSeriesEncoderConfig_init wd empty_ts_kwargs)
                                 (\<lambda>c. Inr (Some c))
                | ArgOther \<Rightarrow> Inr None) (\<lambda>self_ts_config.
         Inr \<lparr>image_token_id = get_or (kw_image_token_id kw) 151667,
              ts_context_token_id = get_or (kw_ts_context_token_id kw) 151668,
              ts_select_layer = get_or (kw_ts_select_layer kw) (- 1),
              image_seq_length = get_or (kw_image_seq_length kw) 256,
              downsample_ratio = get_or (kw_downsample_ratio kw) (1 / 2),
              projector_hidden_act = get_or (kw_projector_hidden_act kw) ''gelu'',
              vision_feature_layer = get_or (kw_vision_feature_layer kw) (- 1),
              vision_feature_select_strategy = get_or (kw_vision_feature_select_strategy kw) ''default'',
              vision_config = self_vision_config,
              text_config = text_cfg,
              ts_config = self_ts_config\<rparr>)))"

section \<open>Projectors\<close>

text \<open>
  A module is a function on tensors that may raise.  Both projectors hold a layer norm, a
  linear layer, an activation and a second linear layer, and their \<^verbatim>\<open>forward\<close> calls them
  in this order.  \<open>projector_shapes\<close> gives the four modules as they act on shapes;
  \<^verbatim>\<open>nn.GELU\<close> and every entry of the library's \<^verbatim>\<open>ACT2FN\<close> act elementwise.
\<close>

record 't projector =
  proj_layer_norm :: "'t \<Rightarrow> error + 't"
  proj_linear_1 :: "'t \<Rightarrow> error + 't"
  proj_act :: "'t \<Rightarrow> error + 't"
  proj_linear_2 :: "'t \<Rightarrow> error + 't"

definition projector_shapes :: "nat \<Rightarrow> nat \<Rightarrow> shape projector" where
  "projector_shapes in_size llm_hidden_size =
     \<lparr>proj_layer_norm = layer_norm in_size,
      proj_linear_1 = linear_layer in_size llm_hidden_size,
      proj_act = activation,
      proj_linear_2 = linear_layer llm_hidden_size llm_hidden_size\<rparr>"

definition InternTSProjector_init :: "InternS1Config \<Rightarrow> error + shape projector" where
  "InternTSProjector_init config =
     (case ts_config config of
        None \<Rightarrow> Inl AttributeError
      | Some tsc \<Rightarrow>
          (case text_config config of
             TextOther \<Rightarrow> Inl AttributeError
           | TextCfg tc \<Rightarrow> Inr (projector_shapes (ts_hidden_dim tsc) (hidden_size tc))))"





section \<open>InternS1Model.forward: merging the modalities\<close>

text \<open>
  The embeddings are moved, never computed with, so their elements are of an arbitrary type
  \<open>'a\<close>: \<open>inputs_embeds\<close> is a list (batch) of lists (sequence) of rows (hidden dimension).
  The encoders and the language model are the library's; the model takes what they return:
  \<^item> \<open>embed_tokens\<close> is the embedding table \<^verbatim>\<open>get_input_embeddings()\<close>;
  \<^item> \<open>image_features\<close> is the value of \<^verbatim>\<open>get_image_features(pixel_values, ...)\<close>, and \<open>None\<close>
    when \<^verbatim>\<open>pixel_values\<close> is \<open>None\<close>;
  \<^item> \<open>ts\<close> is the pair that \<^verbatim>\<open>get_time_series_features(time_series_signals, x_lens)\<close>
    returns, features and padding mask, and \<open>None\<close> when \<^verbatim>\<open>time_series_signals\<close> is \<open>None\<close>;
  \<^item> \<open>compiling\<close> is the value of \<^verbatim>\<open>is_torchdynamo_compiling()\<close>;
  \<^item> \<open>language_model\<close> maps the merged embeddings to the outputs.
\<close>

text \<open>
  \<^verbatim>\<open>t.masked_scatter(mask, source)\<close> walks through \<open>t\<close> in row-major order and puts the next
  element of \<open>source\<close> wherever the mask is set; it raises when \<open>source\<close> runs out.  Here
  the mask is a mask over positions expanded along the hidden dimension, so a set position
  takes the next \<open>length row\<close> elements of the source.  The functions return the tensor
  and what is left of the source.
\<close>

fun masked_scatter_rows :: "'a list list \<Rightarrow> bool list \<Rightarrow> 'a list \<Rightarrow> error + 'a list list \<times> 'a list" where
  "masked_scatter_rows [] ms src = Inr ([], src)"
| "masked_scatter_rows (row # rows) [] src = Inl RuntimeError"
| "masked_scatter_rows (row # rows) (m # ms) src =
     (if m then
        (if length src < length row then Inl RuntimeError
         else ebind (masked_scatter_rows rows ms (drop (length row) src))
                (\<lambda>(rs, rest). Inr (take (length row) src # rs, rest)))
      else ebind (masked_scatter_rows rows ms src) (\<lambda>(rs, rest). Inr (row # rs, rest)))"

fun masked_scatter_batch ::
  "'a list list list \<Rightarrow> bool list list \<Rightarrow> 'a list \<Rightarrow> error + 'a list list list \<times> 'a list" where
  "masked_scatter_batch [] ms src = Inr ([], src)"
| "masked_scatter_batch (seq # seqs) [] src = Inl RuntimeError"
| "masked_scatter_batch (seq # seqs) (m # ms) src =
     ebind (masked_scatter_rows seq m src) (\<lambda>(s, rest).
     ebind (masked_scatter_batch seqs ms rest) (\<lambda>(ss, rest). Inr (s # ss, rest)))"

definition masked_scatter ::
  "'a list list list \<Rightarrow> bool list list \<Rightarrow> 'a list \<Rightarrow> error + 'a list list list" where
  "masked_scatter t position_mask source =
     ebind (masked_scatter_batch t position_mask source) (\<lambda>(r, rest). Inr r)"

text \<open>
  The positions of a placeholder token: by token id when \<open>input_ids\<close> is given, and else the
  positions whose embedding equals the embedding of the token in every component.
\<close>

definition special_mask ::
  "(int \<Rightarrow> 'a list) \<Rightarrow> int list list option \<Rightarrow> 'a list list list \<Rightarrow> int \<Rightarrow> bool list list" where
  "special_mask embed_tokens input_ids inputs_embeds token_id =
     (case input_ids of
        None \<Rightarrow> map (map (\<lambda>row. row = embed_tokens token_id)) inputs_embeds
      | Some ids \<Rightarrow> map (map (\<lambda>t. t = token_id)) ids)"

text \<open>\<^verbatim>\<open>inputs_embeds[mask].numel()\<close> for a position mask expanded along the hidden dimension.\<close>

definition numel_masked :: "'a list list list \<Rightarrow> bool list list \<Rightarrow> nat" where
  "numel_masked t m =
     sum_list (map (\<lambda>(row, b). if b then length row else 0) (zip (concat t) (concat m)))"


text \<open>
  \<^verbatim>\<open>time_series_features[~ts_pad_mask]\<close>: the rows at the positions that are not padding, in
  order; boolean indexing raises unless the mask has the shape of the first two dimensions.
\<close>

definition select_valid :: "'a list list list \<Rightarrow> bool list list \<Rightarrow> error + 'a list list" where
  "select_valid time_series_features pad_mask =
     (if map length time_series_features \<noteq> map length pad_mask then Inl IndexError
      else Inr (map fst (filter (\<lambda>(row, pad). \<not> pad)
                           (zip (concat time_series_features) (concat pad_mask)))))"

text \<open>
  The two blocks of \<^verbatim>\<open>InternS1Model.forward\<close> that merge a modality into
  \<open>inputs_embeds\<close>, each behind its guard (\<^verbatim>\<open>if pixel_values is not None\<close>,
  \<^verbatim>\<open>if time_series_signals is not None\<close>), and the function itself.  The image features
  have shape (images, length, hidden) and the valid time-series features (rows, hidden);
  \<^verbatim>\<open>numel\<close> is the length of the flattened tensor.
\<close>

definition merge_image_features ::
  "(int \<Rightarrow> 'a list) \<Rightarrow> int \<Rightarrow> bool \<Rightarrow> int list list option \<Rightarrow> 'a list list list
     \<Rightarrow> 'a list list list option \<Rightarrow> error + 'a list list list" where
  "merge_image_features embed_tokens image_token compiling input_ids inputs_embeds image_features =
     (case image_features of
        None \<Rightarrow> Inr inputs_embeds
      | Some feats \<Rightarrow>
          (let special_image_mask = special_mask embed_tokens input_ids inputs_embeds image_token
           in if \<not> compiling
                 \<and> numel_masked inputs_embeds special_image_mask \<noteq> length (concat (concat feats))
              then Inl (ValueError ImageFeaturesMismatch)
              else masked_scatter inputs_embeds special_image_mask (concat (concat feats))))"

definition merge_time_series_features ::
  "(int \<Rightarrow> 'a list) \<Rightarrow> int \<Rightarrow> bool \<Rightarrow> int list list option \<Rightarrow> 'a list list list
     \<Rightarrow> ('a list list list \<times> bool list list) option \<Rightarrow> error + 'a list list list" where
  "merge_time_series_features embed_tokens ts_token compiling input_ids inputs_embeds ts =
     (case ts of
        None \<Rightarrow> Inr inputs_embeds
      | Some (time_series_features, pad_mask) \<Rightarrow>
          ebind (select_valid time_series_features pad_mask) (\<lambda>ts_features_valid.
            (let special_ts_mask = special_mask embed_tokens input_ids inputs_embeds ts_token
             in if \<not> compiling
                   \<and> numel_masked inputs_embeds special_ts_mask \<noteq> length (concat ts_features_valid)
                then Inl (ValueError TimeSeriesFeaturesMismatch)
                else masked_scatter inputs_embeds special_ts_mask (concat ts_features_valid))))"

record 'a InternS1Model =
  embed_tokens :: "int \<Rightarrow> 'a list"
  model_image_token_id :: int
  model_ts_context_token_id :: int

definition InternS1Model_forward ::
  "'a InternS1Model \<Rightarrow> ('a list list list \<Rightarrow> 'r) \<Rightarrow> bool
     \<Rightarrow> int list list option \<Rightarrow> 'a list list list option
     \<Rightarrow> 'a list list list option \<Rightarrow> ('a list list list \<times> bool list list) option
     \<Rightarrow> error + 'r" where
  "InternS1Model_forward self language_model compiling input_ids inputs_embeds image_features ts =
     (if (input_ids = None) \<noteq> (inputs_embeds \<noteq> None)
      then Inl (ValueError ExactlyOneOfInputIdsOrEmbeds)
      else
        (let inputs_embeds =
               (case inputs_embeds of
                  None \<Rightarrow> map (map (embed_tokens self)) (the input_ids)
                | Some e \<Rightarrow> e)
         in ebind (merge_image_features (embed_tokens self) (model_image_token_id self) compiling
                     input_ids inputs_embeds image_features) (\<lambda>inputs_embeds.
            ebind (merge_time_series_features (embed_tokens self) (model_ts_context_token_id self)
                     compiling input_ids inputs_embeds ts) (\<lambda>inputs_embeds.
            Inr (language_model inputs_embeds)))))"

section \<open>Notions used in the statements\<close>

text \<open>
  The rows of a tensor of embeddings at the positions whose token id is \<open>tok\<close>, in row-major
  order of the positions.
\<close>

definition rows_at :: "'a list list list \<Rightarrow> int list list \<Rightarrow> int \<Rightarrow> 'a list list" where
  "rows_at t ids tok = map fst (filter (\<lambda>(row, i). i = tok) (zip (concat t) (concat ids)))"

section \<open>A small model for the examples\<close>

text \<open>
  An embedding table with hidden size two, the placeholder tokens \<open>7\<close> (image) and \<open>8\<close>
  (time series), and a language model that returns the embeddings it is given.
\<close>

definition example_embed :: "int \<Rightarrow> int list" where
  "example_embed t = [t, t + 100]"

definition example_model :: "int InternS1Model" where
  "example_model =
     \<lparr>embed_tokens = example_embed, model_image_token_id = 7, model_ts_context_token_id = 8\<rparr>"

chapter \<open>Verification\<close>

section \<open>Properties of make_pad_mask\<close>

lemma fold_max_Max: "fold max ys (y::int) = Max (set (y # ys))"
  using Max.set_eq_fold [of y ys] by simp

lemma tensor_max_Inr: "lengths \<noteq> [] \<Longrightarrow> tensor_max lengths = Inr (Max (set lengths))"
  by (cases lengths) (simp_all add: tensor_max_def fold_max_Max del: Max_insert set_simps(2))

lemma make_pad_mask_eq:
  "lengths \<noteq> [] \<Longrightarrow>
   make_pad_mask lengths =
     Inr (map (\<lambda>l. map (\<lambda>j. int j \<ge> l) [0..<nat (Max (set lengths))]) lengths)"
  by (simp add: make_pad_mask_def tensor_max_Inr arange_def Let_def map2_map_map
        zip_replicate1 map_replicate_const o_def
      flip: map_replicate_const)

text \<open>
  C9.  For a 1-D integer tensor \<open>lengths\<close> with \<open>n\<close> elements whose maximum \<open>m\<close> is
  positive, \<open>make_pad_mask\<close> returns an \<open>n\<close>-by-\<open>m\<close> boolean matrix whose entry \<open>(i, j)\<close>
  is \<open>True\<close> exactly when \<open>j \<ge> lengths[i]\<close>.
\<close>

theorem make_pad_mask_spec:
  assumes "lengths \<noteq> []" and "0 < Max (set lengths)"
  shows "\<exists>mask. make_pad_mask lengths = Inr mask
           \<and> length mask = length lengths
           \<and> (\<forall>i < length lengths.
                 length (mask ! i) = nat (Max (set lengths))
                 \<and> (\<forall>j < nat (Max (set lengths)). (mask ! i ! j) = (int j \<ge> lengths ! i)))"
  using assms by (simp add: make_pad_mask_eq)

theorem make_pad_mask_spec_witness:
  "[1, 3, 2, 5] \<noteq> ([]::int list) \<and> 0 < Max (set [1, 3, 2, 5::int])
   \<and> make_pad_mask [1, 3, 2, 5] =
       Inr [[False, True, True, True, True],
            [False, False, False, True, True],
            [False, False, True, True, True],
            [False, False, False, False, False]]"
proof -
  have h1: "[1, 3, 2, 5] \<noteq> ([]::int list)" by simp
  have h2: "0 < Max (set [1, 3, 2, 5::int])" by simp
  from make_pad_mask_spec [OF h1 h2]
  have "\<exists>mask. make_pad_mask [1, 3, 2, 5] = Inr mask" by blast
  moreover have "make_pad_mask [1, 3, 2, 5] =
       Inr [[False, True, True, True, True],
            [False, False, False, True, True],
            [False, False, True, True, True],
            [False, False, False, False, False]]"
    by code_simp
  ultimately show ?thesis using h1 h2 by blast
qed

section \<open>Attention masks\<close>




















section \<open>Lengths after the convolutional subsampling\<close>

lemma default_init:
  "Conv1dSubsampling_init (default_ts_config dm mel maxpos rd) =
     Inr \<lparr>channels = [1, 32, 64, 128, 128], kernel_sizes = [3, 5, 5, 5], strides = [2, 4, 4, 5],
          paddings = [1, 2, 2, 2], concat_in_channels = 128, concat_size = 2, n_layers = 4,
          layers = [\<lparr>in_channels = 1, out_channels = 32, kernel_size = 3, stride = 2, padding = 1\<rparr>,
                    \<lparr>in_channels = 32, out_channels = 64, kernel_size = 5, stride = 4, padding = 2\<rparr>,
                    \<lparr>in_channels = 64, out_channels = 128, kernel_size = 5, stride = 4, padding = 2\<rparr>,
                    \<lparr>in_channels = 128, out_channels = 128, kernel_size = 5, stride = 5, padding = 2\<rparr>],
          subsampling = \<lparr>cs_in_channels = 128, cs_out_channels = 256\<rparr>\<rparr>"
proof -
  have u: "[0..<4] = [0, 1, 2, 3::nat]" by (simp add: upt_rec)
  show ?thesis
    by (simp add: Conv1dSubsampling_init_def default_ts_config_def Let_def ConcatSubsampling_init_def u)
qed

lemma conv_out_len_2: "0 < l \<Longrightarrow> conv_out_len l 3 2 1 = (l + 1) div 2"
  unfolding conv_out_len_def by (cases l) simp_all

lemma conv_out_len_4: "0 < l \<Longrightarrow> conv_out_len l 5 4 2 = (l + 3) div 4"
  unfolding conv_out_len_def by (cases l) simp_all

lemma conv_out_len_5: "0 < l \<Longrightarrow> conv_out_len l 5 5 2 = (l + 4) div 5"
  unfolding conv_out_len_def by (cases l) simp_all

lemma conv_out_len_1: "0 < l \<Longrightarrow> conv_out_len l 3 1 1 = l"
  unfolding conv_out_len_def by (cases l) simp_all

lemma conv_out_len_pos: "0 < s \<Longrightarrow> 0 < conv_out_len l k s p"
  by (simp add: conv_out_len_def)

lemma conv_out_len_ge1: "Suc 0 \<le> conv_out_len l k s p"
  by (simp add: conv_out_len_def)

lemma closed_form_int:
  "((((int t + 1) div 2 + 3) div 4 + 3) div 4 + 4) div 5 = int (closed_form t)"
  unfolding closed_form_def by (simp only: zdiv_int of_nat_add of_nat_numeral of_nat_1)

lemma closed_form_conv:
  assumes "0 < t"
  shows "conv_out_len (conv_out_len (conv_out_len (conv_out_len t 3 2 1) 5 4 2) 5 4 2) 5 5 2
           = closed_form t"
proof -
  have 1: "conv_out_len t 3 2 1 = (t + 1) div 2" using assms by (rule conv_out_len_2)
  have p1: "0 < (t + 1) div 2" using assms by simp
  have 2: "conv_out_len ((t + 1) div 2) 5 4 2 = ((t + 1) div 2 + 3) div 4"
    using p1 by (rule conv_out_len_4)
  have p2: "0 < ((t + 1) div 2 + 3) div 4" using p1 by simp
  have 3: "conv_out_len (((t + 1) div 2 + 3) div 4) 5 4 2 = (((t + 1) div 2 + 3) div 4 + 3) div 4"
    using p2 by (rule conv_out_len_4)
  have p3: "0 < (((t + 1) div 2 + 3) div 4 + 3) div 4" using p2 by simp
  show ?thesis
    unfolding 1 2 3 closed_form_def using p3 by (rule conv_out_len_5)
qed

lemma default_layers_forward:
  assumes "0 < t"
  shows "conv_relu_layers
          [\<lparr>in_channels = 1, out_channels = 32, kernel_size = 3, stride = 2, padding = 1\<rparr>,
           \<lparr>in_channels = 32, out_channels = 64, kernel_size = 5, stride = 4, padding = 2\<rparr>,
           \<lparr>in_channels = 64, out_channels = 128, kernel_size = 5, stride = 4, padding = 2\<rparr>,
           \<lparr>in_channels = 128, out_channels = 128, kernel_size = 5, stride = 5, padding = 2\<rparr>]
          [b, 1, t]
         = Inr [b, 128, conv_out_len (conv_out_len (conv_out_len (conv_out_len t 3 2 1) 5 4 2) 5 4 2) 5 5 2]"
  using assms by (simp add: conv1d_forward_def ebind_def activation_def conv_out_len_ge1)


lemma ConcatSubsampling_forward_eq:
  "ConcatSubsampling_forward cs [b, l, c] (Some ls) = Inr ([b, l div 2, c + c], map (\<lambda>l. l div 2) ls)"
proof -
  have "(if l mod 2 \<noteq> 0 then l - 1 else l) div 2 = l div 2" by presburger
  moreover have "((if l mod 2 \<noteq> 0 then l - 1 else l) + 1) div 2 = l div 2" by presburger
  ultimately show ?thesis
    by (simp add: ConcatSubsampling_forward_def Let_def cat_dim2_def)
qed

lemma default_forward:
  assumes "Conv1dSubsampling_init (default_ts_config dm mel maxpos rd) = Inr self" and "0 < t"
  shows "Conv1dSubsampling_forward self [b, t, 1] (Some ls) =
           Inr ([b, closed_form t div 2, 256],
                map (\<lambda>l. ((((l + 1) div 2 + 3) div 4 + 3) div 4 + 4) div 5 div 2) ls)"
proof -
  from assms(1) have l: "layers self =
          [\<lparr>in_channels = 1, out_channels = 32, kernel_size = 3, stride = 2, padding = 1\<rparr>,
           \<lparr>in_channels = 32, out_channels = 64, kernel_size = 5, stride = 4, padding = 2\<rparr>,
           \<lparr>in_channels = 64, out_channels = 128, kernel_size = 5, stride = 4, padding = 2\<rparr>,
           \<lparr>in_channels = 128, out_channels = 128, kernel_size = 5, stride = 5, padding = 2\<rparr>]"
    unfolding default_init by auto
  have t1: "transpose12 [b, t, 1] = Inr [b, 1, t]" by (simp add: transpose12_def)
  have t2: "\<And>k. transpose12 [b, 128, k] = Inr [b, k, 128]" by (simp add: transpose12_def)
  have c: "conv_relu_layers (layers self) [b, 1, t] = Inr [b, 128, closed_form t]"
    unfolding l default_layers_forward [OF assms(2)] closed_form_conv [OF assms(2)] ..
  have e: "\<And>(v::shape) f. ebind (Inr v) f = f v" by (simp add: ebind_def)
  show ?thesis
    unfolding Conv1dSubsampling_forward_def option.case e t1 c t2 ConcatSubsampling_forward_eq
    by (simp add: o_def ebind_def)
qed

lemma default_forward_zero:
  assumes "Conv1dSubsampling_init (default_ts_config dm mel maxpos rd) = Inr self"
  shows "Conv1dSubsampling_forward self [b, 0, 1] x_lens = Inl RuntimeError"
proof -
  from assms(1) have l: "layers self =
          [\<lparr>in_channels = 1, out_channels = 32, kernel_size = 3, stride = 2, padding = 1\<rparr>,
           \<lparr>in_channels = 32, out_channels = 64, kernel_size = 5, stride = 4, padding = 2\<rparr>,
           \<lparr>in_channels = 64, out_channels = 128, kernel_size = 5, stride = 4, padding = 2\<rparr>,
           \<lparr>in_channels = 128, out_channels = 128, kernel_size = 5, stride = 5, padding = 2\<rparr>]"
    unfolding default_init by auto
  show ?thesis
    unfolding Conv1dSubsampling_forward_def l
    by (simp add: ebind_def transpose12_def conv1d_forward_def)
qed


text \<open>
  C3.  With the default layers (kernels \<open>[3,5,5,5]\<close>, strides \<open>[2,4,4,5]\<close>, paddings
  \<open>[1,2,2,2]\<close>), for a batch of shape \<open>(b, t, 1)\<close> whose \<open>x_lens\<close> all equal \<open>t\<close>: whenever
  \<^verbatim>\<open>Conv1dSubsampling.forward\<close> returns, the \<open>x_lens\<close> it returns all equal the temporal
  length \<open>x.shape[1]\<close> of the tensor it returns, and it does return for every \<open>t > 0\<close>; the
  closed-form update is the composition of the convolution output-length formula over the
  four layers; and \<^verbatim>\<open>ConcatSubsampling\<close> halves both the temporal length (dropping the
  last frame of an odd length) and the lengths.
\<close>

theorem conv1d_subsampling_x_lens:
  assumes "Conv1dSubsampling_init (default_ts_config dm mel maxpos rd) = Inr self"
  shows "(\<forall>x ls. Conv1dSubsampling_forward self [b, t, 1] (Some (replicate b (int t))) = Inr (x, ls)
              \<longrightarrow> length x = 3 \<and> ls = replicate b (int (x ! 1)))
       \<and> (0 < t \<longrightarrow> (\<exists>x ls. Conv1dSubsampling_forward self [b, t, 1] (Some (replicate b (int t)))
                              = Inr (x, ls)))
       \<and> (0 < t \<longrightarrow> ((((int t + 1) div 2 + 3) div 4 + 3) div 4 + 4) div 5 =
             int (conv_out_len (conv_out_len (conv_out_len (conv_out_len t 3 2 1) 5 4 2) 5 4 2) 5 5 2))
       \<and> (\<forall>l c. ConcatSubsampling_forward (subsampling self) [b, l, c] (Some (replicate b (int l)))
              = Inr ([b, l div 2, c + c], replicate b (int l div 2)))"
proof (intro conjI allI impI)
  fix x ls
  assume r: "Conv1dSubsampling_forward self [b, t, 1] (Some (replicate b (int t))) = Inr (x, ls)"
  have pos: "0 < t"
  proof (rule ccontr)
    assume "\<not> 0 < t"
    then have "t = 0" by simp
    with r default_forward_zero [OF assms] show False by simp
  qed
  have "(Inr (x, ls) :: error + shape \<times> int list) =
      Inr ([b, closed_form t div 2, 256],
           map (\<lambda>l. ((((l + 1) div 2 + 3) div 4 + 3) div 4 + 4) div 5 div 2) (replicate b (int t)))"
    by (rule trans [OF r [symmetric] default_forward [OF assms pos]])
  then have xl: "x = [b, closed_form t div 2, 256]
      \<and> ls = map (\<lambda>l. ((((l + 1) div 2 + 3) div 4 + 3) div 4 + 4) div 5 div 2) (replicate b (int t))"
    by (simp only: sum.inject prod.inject)
  have xx: "x = [b, closed_form t div 2, 256]" using xl by (rule conjunct1)
  have ll: "ls = map (\<lambda>l. ((((l + 1) div 2 + 3) div 4 + 3) div 4 + 4) div 5 div 2) (replicate b (int t))"
    using xl by (rule conjunct2)
  have x1: "x ! 1 = closed_form t div 2" unfolding xx by simp
  have h: "((((int t + 1) div 2 + 3) div 4 + 3) div 4 + 4) div 5 div 2 = int (closed_form t div 2)"
    by (simp only: closed_form_int zdiv_int of_nat_numeral)
  show "length x = 3" unfolding xx by simp
  show "ls = replicate b (int (x ! 1))"
    unfolding x1 ll by (simp only: map_replicate h)
next
  assume "0 < t"
  from default_forward [OF assms this]
  show "\<exists>x ls. Conv1dSubsampling_forward self [b, t, 1] (Some (replicate b (int t))) = Inr (x, ls)"
    by blast
next
  assume "0 < t"
  then show "((((int t + 1) div 2 + 3) div 4 + 3) div 4 + 4) div 5 =
             int (conv_out_len (conv_out_len (conv_out_len (conv_out_len t 3 2 1) 5 4 2) 5 4 2) 5 5 2)"
    by (simp only: closed_form_conv closed_form_int)
next
  fix l c
  show "ConcatSubsampling_forward (subsampling self) [b, l, c] (Some (replicate b (int l)))
              = Inr ([b, l div 2, c + c], replicate b (int l div 2))"
    by (simp add: ConcatSubsampling_forward_eq)
qed

theorem conv1d_subsampling_x_lens_witness:
  "Conv1dSubsampling_init (default_ts_config 4 80 1500 True) =
     Inr \<lparr>channels = [1, 32, 64, 128, 128], kernel_sizes = [3, 5, 5, 5], strides = [2, 4, 4, 5],
          paddings = [1, 2, 2, 2], concat_in_channels = 128, concat_size = 2, n_layers = 4,
          layers = [\<lparr>in_channels = 1, out_channels = 32, kernel_size = 3, stride = 2, padding = 1\<rparr>,
                    \<lparr>in_channels = 32, out_channels = 64, kernel_size = 5, stride = 4, padding = 2\<rparr>,
                    \<lparr>in_channels = 64, out_channels = 128, kernel_size = 5, stride = 4, padding = 2\<rparr>,
                    \<lparr>in_channels = 128, out_channels = 128, kernel_size = 5, stride = 5, padding = 2\<rparr>],
          subsampling = \<lparr>cs_in_channels = 128, cs_out_channels = 256\<rparr>\<rparr>
   \<and> (0::nat) < 1280
   \<and> Conv1dSubsampling_forward
        \<lparr>channels = [1, 32, 64, 128, 128], kernel_sizes = [3, 5, 5, 5], strides = [2, 4, 4, 5],
          paddings = [1, 2, 2, 2], concat_in_channels = 128, concat_size = 2, n_layers = 4,
          layers = [\<lparr>in_channels = 1, out_channels = 32, kernel_size = 3, stride = 2, padding = 1\<rparr>,
                    \<lparr>in_channels = 32, out_channels = 64, kernel_size = 5, stride = 4, padding = 2\<rparr>,
                    \<lparr>in_channels = 64, out_channels = 128, kernel_size = 5, stride = 4, padding = 2\<rparr>,
                    \<lparr>in_channels = 128, out_channels = 128, kernel_size = 5, stride = 5, padding = 2\<rparr>],
          subsampling = \<lparr>cs_in_channels = 128, cs_out_channels = 256\<rparr>\<rparr>
        [2, 1280, 1] (Some (replicate 2 (int 1280))) = Inr ([2, 4, 256], [4, 4])
   \<and> [4, 4] = replicate 2 (int ([2, 4, 256] ! 1))"
proof -
  note i = default_init [of 4 80 1500 True]
  note th = conv1d_subsampling_x_lens [OF i, of 2 1280]
  have f: "Conv1dSubsampling_forward
        \<lparr>channels = [1, 32, 64, 128, 128], kernel_sizes = [3, 5, 5, 5], strides = [2, 4, 4, 5],
          paddings = [1, 2, 2, 2], concat_in_channels = 128, concat_size = 2, n_layers = 4,
          layers = [\<lparr>in_channels = 1, out_channels = 32, kernel_size = 3, stride = 2, padding = 1\<rparr>,
                    \<lparr>in_channels = 32, out_channels = 64, kernel_size = 5, stride = 4, padding = 2\<rparr>,
                    \<lparr>in_channels = 64, out_channels = 128, kernel_size = 5, stride = 4, padding = 2\<rparr>,
                    \<lparr>in_channels = 128, out_channels = 128, kernel_size = 5, stride = 5, padding = 2\<rparr>],
          subsampling = \<lparr>cs_in_channels = 128, cs_out_channels = 256\<rparr>\<rparr>
        [2, 1280, 1] (Some (replicate 2 (int 1280))) = Inr ([2, 4, 256], [4, 4])"
    by code_simp
  from th f have "[4, 4] = replicate 2 (int ([2, 4, 256] ! 1))" by blast
  with i f show ?thesis by simp
qed

section \<open>The padding mask of the time-series model\<close>

lemma ebind_Inr: "ebind (Inr v) f = f v"
  by (simp add: ebind_def)

lemma ebind_Inl: "ebind (Inl e) f = Inl e"
  by (simp add: ebind_def)



























section \<open>Projectors\<close>






section \<open>The sub-configurations of InternS1Config\<close>

lemma config_init_vision_set:
  assumes "InternS1Config_init cm nk wd va ta tsa kw = Inr cfg" and "va \<noteq> ArgOther"
  shows "vision_config cfg =
           Some (case va of ArgDict d \<Rightarrow> InternS1VisionConfig_init d | ArgConfig c \<Rightarrow> c
                 | _ \<Rightarrow> InternS1VisionConfig_init empty_vision_kwargs)"
  using assms
  by (cases va) (auto simp: InternS1Config_init_def ebind_def Let_def split: sum.splits)

lemma config_init_ts_set:
  assumes "InternS1Config_init cm nk wd va ta tsa kw = Inr cfg"
  shows "tsa = ArgNone \<Longrightarrow> InternTimeSeriesEncoderConfig_init wd empty_ts_kwargs = Inr c
           \<Longrightarrow> ts_config cfg = Some c"
    and "tsa = ArgConfig c \<Longrightarrow> ts_config cfg = Some c"
    and "tsa = ArgDict d \<Longrightarrow> ts_config cfg = None"
  using assms
  by (auto simp: InternS1Config_init_def ebind_def Let_def split: sum.splits)

lemma ts_config_init_default:
  "InternTimeSeriesEncoderConfig_init wd empty_ts_kwargs =
     Inr (default_ts_config (wd_d_model wd) (wd_num_mel_bins wd) (wd_max_source_positions wd)
            (wd_use_return_dict wd))"
  by (simp add: InternTimeSeriesEncoderConfig_init_def empty_ts_kwargs_def get_or_def
        default_ts_config_def Let_def)

text \<open>
  C10.  The claim is that after \<^verbatim>\<open>InternS1Config.__init__\<close> the object has a \<open>ts_config\<close>
  that is an \<^verbatim>\<open>InternTimeSeriesEncoderConfig\<close> for every accepted form of the argument, and
  a \<open>vision_config\<close> likewise.  The two lemmas above show it for \<open>vision_config\<close> and for a
  \<open>ts_config\<close> that is \<open>None\<close> or an instance.  For a dictionary the constructor returns an
  object without the attribute \<open>ts_config\<close>, as the call below with an empty dictionary
  shows; building the projector from that object raises \<open>AttributeError\<close>.
\<close>

theorem config_init_ts_dict_unset:
  "\<exists>cfg. InternS1Config_init (\<lambda>_. None) () \<lparr>wd_d_model = 384, wd_num_mel_bins = 80, wd_max_source_positions = 1500, wd_use_return_dict = True\<rparr>
            (ArgDict empty_vision_kwargs) (ArgConfig \<lparr>hidden_size = 4096, vocab_size = 151936, output_router_logits = Some False,
                num_experts = 128, num_experts_per_tok = 8, router_aux_loss_coef = 1 / 1000\<rparr>) (ArgDict empty_ts_kwargs) empty_s1_kwargs
          = Inr cfg
        \<and> ts_config cfg = None
        \<and> vision_config cfg = Some (InternS1VisionConfig_init empty_vision_kwargs)
        \<and> InternTSProjector_init cfg = Inl AttributeError"
proof -
  have d: "InternTimeSeriesEncoderConfig_init \<lparr>wd_d_model = 384, wd_num_mel_bins = 80, wd_max_source_positions = 1500, wd_use_return_dict = True\<rparr> empty_ts_kwargs
             = Inr (default_ts_config 384 80 1500 True)"
    by (simp add: ts_config_init_default)
  show ?thesis
    by (simp add: InternS1Config_init_def d ebind_def InternTSProjector_init_def)
qed

section \<open>Merging image and time-series features into the embeddings\<close>

lemma ebind_eq_Inr: "ebind r f = Inr v \<longleftrightarrow> (\<exists>x. r = Inr x \<and> f x = Inr v)"
  by (cases r) (simp_all add: ebind_def)

lemma scatter_rows_props:
  assumes "masked_scatter_rows rows ms src = Inr (rs, rest)" and "length ms = length rows"
  shows "map length rs = map length rows
       \<and> concat (map fst (filter snd (zip rs ms))) @ rest = src
       \<and> (\<forall>i<length rows. \<not> ms ! i \<longrightarrow> rs ! i = rows ! i)"
  using assms
proof (induction rows ms src arbitrary: rs rest rule: masked_scatter_rows.induct)
  case (1 ms src)
  then show ?case by simp
next
  case (2 row rows src)
  then show ?case by simp
next
  case (3 row rows m ms src)
  show ?case
  proof (cases m)
    case True
    with "3.prems" obtain rs' where
      len: "\<not> length src < length row"
      and r: "masked_scatter_rows rows ms (drop (length row) src) = Inr (rs', rest)"
      and rs: "rs = take (length row) src # rs'"
      by (auto simp: ebind_eq_Inr split: if_splits)
    from "3.IH"(1) [OF True len r] "3.prems"(2)
    have ih: "map length rs' = map length rows"
      "concat (map fst (filter snd (zip rs' ms))) @ rest = drop (length row) src"
      "\<forall>i<length rows. \<not> ms ! i \<longrightarrow> rs' ! i = rows ! i"
      by simp_all
    show ?thesis
      using ih len True by (auto simp: rs nth_Cons split: nat.splits)
  next
    case False
    with "3.prems" obtain rs' where
      r: "masked_scatter_rows rows ms src = Inr (rs', rest)"
      and rs: "rs = row # rs'"
      by (auto simp: ebind_eq_Inr)
    from "3.IH"(2) [OF False r] "3.prems"(2)
    have ih: "map length rs' = map length rows"
      "concat (map fst (filter snd (zip rs' ms))) @ rest = src"
      "\<forall>i<length rows. \<not> ms ! i \<longrightarrow> rs' ! i = rows ! i"
      by simp_all
    show ?thesis
      using ih False by (auto simp: rs nth_Cons split: nat.splits)
  qed
qed


lemma same_lengths: "map length a = map length b \<Longrightarrow> length a = length b"
  using map_eq_imp_length_eq by blast

lemma scatter_batch_props:
  assumes "masked_scatter_batch t m src = Inr (r, rest)" and "map length m = map length t"
  shows "map (map length) r = map (map length) t
       \<and> concat (map fst (filter snd (zip (concat r) (concat m)))) @ rest = src
       \<and> (\<forall>b<length t. \<forall>s<length (t ! b). \<not> m ! b ! s \<longrightarrow> r ! b ! s = t ! b ! s)"
  using assms
proof (induction t m src arbitrary: r rest rule: masked_scatter_batch.induct)
  case (1 ms src)
  then show ?case by simp
next
  case (2 seq seqs src)
  then show ?case by simp
next
  case (3 seq seqs m ms src)
  from "3.prems"(1) obtain s1 rest1 ss where
    a: "masked_scatter_rows seq m src = Inr (s1, rest1)"
    and b: "masked_scatter_batch seqs ms rest1 = Inr (ss, rest)"
    and r: "r = s1 # ss"
    by (auto simp: ebind_eq_Inr)
  from "3.prems"(2) have lm: "length m = length seq" and lms: "map length ms = map length seqs"
    by simp_all
  from scatter_rows_props [OF a lm]
  have p1: "map length s1 = map length seq"
    "concat (map fst (filter snd (zip s1 m))) @ rest1 = src"
    "\<forall>i<length seq. \<not> m ! i \<longrightarrow> s1 ! i = seq ! i"
    by simp_all
  from "3.IH" [OF b lms]
  have p2: "map (map length) ss = map (map length) seqs"
    "concat (map fst (filter snd (zip (concat ss) (concat ms)))) @ rest = rest1"
    "\<forall>b<length seqs. \<forall>s<length (seqs ! b). \<not> ms ! b ! s \<longrightarrow> ss ! b ! s = seqs ! b ! s"
    by simp_all
  have l1: "length s1 = length m" using p1(1) lm same_lengths by fastforce
  have "concat (map fst (filter snd (zip (concat r) (concat (m # ms))))) @ rest = src"
    using p1(2) p2(2) by (simp add: r l1)
  moreover have "\<forall>b<length (seq # seqs). \<forall>s<length ((seq # seqs) ! b).
        \<not> (m # ms) ! b ! s \<longrightarrow> r ! b ! s = (seq # seqs) ! b ! s"
    using p1(3) p2(3) by (auto simp: r nth_Cons split: nat.splits)
  ultimately show ?case using p1(1) p2(1) by (simp add: r)
qed

lemma scatter_rows_succeeds:
  assumes "length ms = length rows"
      and "sum_list (map (\<lambda>(row, b). if b then length row else 0) (zip rows ms)) \<le> length src"
  shows "\<exists>rs. masked_scatter_rows rows ms src =
           Inr (rs, drop (sum_list (map (\<lambda>(row, b). if b then length row else 0) (zip rows ms))) src)"
  using assms
proof (induction rows ms src rule: masked_scatter_rows.induct)
  case (1 ms src)
  then show ?case by simp
next
  case (2 row rows src)
  then show ?case by simp
next
  case (3 row rows m ms src)
  show ?case
  proof (cases m)
    case True
    let ?n = "sum_list (map (\<lambda>(row, b). if b then length row else 0) (zip rows ms))"
    from True "3.prems" have tot: "length row + ?n \<le> length src" by simp
    then have len: "\<not> length src < length row" by simp
    from tot have le: "?n \<le> length (drop (length row) src)" by simp
    from "3.prems"(1) have lm: "length ms = length rows" by simp
    from "3.IH"(1) [OF True len lm le]
    obtain rs where "masked_scatter_rows rows ms (drop (length row) src) =
        Inr (rs, drop ?n (drop (length row) src))"
      by blast
    then show ?thesis using True len by (auto simp: ebind_Inr add_ac)
  next
    case False
    from "3.IH"(2) [OF False] "3.prems" False
    obtain rs where "masked_scatter_rows rows ms src =
        Inr (rs, drop (sum_list (map (\<lambda>(row, b). if b then length row else 0) (zip rows ms))) src)"
      by auto
    then show ?thesis using False by (simp add: ebind_Inr)
  qed
qed

lemma scatter_rows_fails:
  assumes "length ms = length rows"
      and "length src < sum_list (map (\<lambda>(row, b). if b then length row else 0) (zip rows ms))"
  shows "masked_scatter_rows rows ms src = Inl RuntimeError"
  using assms
proof (induction rows ms src rule: masked_scatter_rows.induct)
  case (1 ms src)
  then show ?case by simp
next
  case (2 row rows src)
  then show ?case by simp
next
  case (3 row rows m ms src)
  show ?case
  proof (cases "m \<and> length src < length row")
    case True
    then show ?thesis by simp
  next
    case False
    then show ?thesis
      using "3.IH" "3.prems" by (auto simp: ebind_Inl)
  qed
qed


lemma numel_masked_Nil: "numel_masked [] m = 0"
  by (simp add: numel_masked_def)

lemma numel_masked_Cons:
  "length m = length seq \<Longrightarrow>
   numel_masked (seq # seqs) (m # ms) =
     sum_list (map (\<lambda>(row, b). if b then length row else 0) (zip seq m)) + numel_masked seqs ms"
  by (simp add: numel_masked_def)

lemma scatter_batch_succeeds:
  assumes "map length m = map length t" and "numel_masked t m \<le> length src"
  shows "\<exists>r. masked_scatter_batch t m src = Inr (r, drop (numel_masked t m) src)"
  using assms
proof (induction t m src rule: masked_scatter_batch.induct)
  case (1 ms src)
  then show ?case by (simp add: numel_masked_Nil)
next
  case (2 seq seqs src)
  then show ?case by simp
next
  case (3 seq seqs m ms src)
  let ?n = "sum_list (map (\<lambda>(row, b). if b then length row else 0) (zip seq m))"
  from "3.prems"(1) have lm: "length m = length seq" and lms: "map length ms = map length seqs"
    by simp_all
  note split = numel_masked_Cons [OF lm, of seqs ms]
  from "3.prems"(2) have a: "?n \<le> length src" and b: "numel_masked seqs ms \<le> length (drop ?n src)"
    unfolding split by simp_all
  from scatter_rows_succeeds [OF lm a]
  obtain s1 where s1: "masked_scatter_rows seq m src = Inr (s1, drop ?n src)" by blast
  from "3.IH" [OF lms b]
  obtain ss where ss: "masked_scatter_batch seqs ms (drop ?n src)
      = Inr (ss, drop (numel_masked seqs ms) (drop ?n src))" by blast
  show ?case
    unfolding split by (simp add: s1 ss ebind_Inr add.commute)
qed

lemma scatter_batch_fails:
  assumes "map length m = map length t" and "length src < numel_masked t m"
  shows "masked_scatter_batch t m src = Inl RuntimeError"
  using assms
proof (induction t m src rule: masked_scatter_batch.induct)
  case (1 ms src)
  then show ?case by (simp add: numel_masked_Nil)
next
  case (2 seq seqs src)
  then show ?case by simp
next
  case (3 seq seqs m ms src)
  let ?n = "sum_list (map (\<lambda>(row, b). if b then length row else 0) (zip seq m))"
  from "3.prems"(1) have lm: "length m = length seq" and lms: "map length ms = map length seqs"
    by simp_all
  note split = numel_masked_Cons [OF lm, of seqs ms]
  show ?case
  proof (cases "?n \<le> length src")
    case True
    from scatter_rows_succeeds [OF lm True]
    obtain s1 where s1: "masked_scatter_rows seq m src = Inr (s1, drop ?n src)" by blast
    from "3.prems"(2) True have "length (drop ?n src) < numel_masked seqs ms"
      unfolding split by simp
    from "3.IH" [OF lms this]
    show ?thesis by (simp add: s1 ebind_Inr ebind_Inl)
  next
    case False
    then have "length src < ?n" by simp
    from scatter_rows_fails [OF lm this]
    show ?thesis by (simp add: ebind_Inl)
  qed
qed

lemma masked_scatter_eq:
  assumes "map length m = map length t"
  shows "numel_masked t m \<le> length src \<Longrightarrow> \<exists>r. masked_scatter t m src = Inr r"
    and "length src < numel_masked t m \<Longrightarrow> masked_scatter t m src = Inl RuntimeError"
proof -
  show "\<exists>r. masked_scatter t m src = Inr r" if "numel_masked t m \<le> length src"
    using scatter_batch_succeeds [OF assms that] by (auto simp: masked_scatter_def ebind_Inr)
  show "masked_scatter t m src = Inl RuntimeError" if "length src < numel_masked t m"
    using scatter_batch_fails [OF assms that] by (simp add: masked_scatter_def ebind_Inl)
qed

lemma selected_length:
  "map length rs = map length rows \<Longrightarrow> length ms = length rows \<Longrightarrow>
   length (concat (map fst (filter snd (zip rs ms)))) =
     sum_list (map (\<lambda>(row, b). if b then length row else 0) (zip rows ms))"
proof (induction rs arbitrary: rows ms)
  case Nil
  then show ?case by simp
next
  case (Cons r rs)
  then obtain row rows' where rows: "rows = row # rows'" by (cases rows) auto
  with Cons.prems obtain m ms' where ms: "ms = m # ms'" by (cases ms) auto
  from Cons.prems Cons.IH [of rows' ms'] show ?case by (simp add: rows ms)
qed

lemma masked_scatter_props:
  assumes "masked_scatter t m src = Inr r" and "map length m = map length t"
  shows "map (map length) r = map (map length) t"
    and "concat (map fst (filter snd (zip (concat r) (concat m)))) = take (numel_masked t m) src"
    and "numel_masked t m \<le> length src"
    and "\<And>b s. b < length t \<Longrightarrow> s < length (t ! b) \<Longrightarrow> \<not> m ! b ! s \<Longrightarrow> r ! b ! s = t ! b ! s"
proof -
  from assms(1) obtain rest where b: "masked_scatter_batch t m src = Inr (r, rest)"
    by (auto simp: masked_scatter_def ebind_eq_Inr)
  note p = scatter_batch_props [OF b assms(2)]
  show shp: "map (map length) r = map (map length) t" using p by simp
  show le: "numel_masked t m \<le> length src"
  proof (rule ccontr)
    assume "\<not> numel_masked t m \<le> length src"
    then have "length src < numel_masked t m" by simp
    from scatter_batch_fails [OF assms(2) this] b show False by simp
  qed
  from scatter_batch_succeeds [OF assms(2) le] b
  have rest: "rest = drop (numel_masked t m) src" by auto
  from p have "concat (map fst (filter snd (zip (concat r) (concat m)))) @ rest = src" by simp
  then have "take (numel_masked t m) (concat (map fst (filter snd (zip (concat r) (concat m)))) @ rest)
      = take (numel_masked t m) src" by simp
  moreover have "length (concat (map fst (filter snd (zip (concat r) (concat m))))) = numel_masked t m"
  proof -
    have "length rest = length src - numel_masked t m" by (simp add: rest)
    moreover have "length (concat (map fst (filter snd (zip (concat r) (concat m)))) @ rest) = length src"
      using p by simp
    ultimately show ?thesis using le by simp
  qed
  ultimately show "concat (map fst (filter snd (zip (concat r) (concat m)))) = take (numel_masked t m) src"
    by simp
  show "\<And>b s. b < length t \<Longrightarrow> s < length (t ! b) \<Longrightarrow> \<not> m ! b ! s \<Longrightarrow> r ! b ! s = t ! b ! s"
    using p by blast
qed


lemma scatter_batch_flat_unchanged:
  assumes "masked_scatter_batch t m src = Inr (r, rest)" and "map length m = map length t"
  shows "\<forall>i<length (concat t). \<not> concat m ! i \<longrightarrow> concat r ! i = concat t ! i"
  using assms
proof (induction t m src arbitrary: r rest rule: masked_scatter_batch.induct)
  case (1 ms src)
  then show ?case by simp
next
  case (2 seq seqs src)
  then show ?case by simp
next
  case (3 seq seqs m ms src)
  from "3.prems"(1) obtain s1 rest1 ss where
    a: "masked_scatter_rows seq m src = Inr (s1, rest1)"
    and b: "masked_scatter_batch seqs ms rest1 = Inr (ss, rest)"
    and r: "r = s1 # ss"
    by (auto simp: ebind_eq_Inr)
  from "3.prems"(2) have lm: "length m = length seq" and lms: "map length ms = map length seqs"
    by simp_all
  from scatter_rows_props [OF a lm]
  have p1: "map length s1 = map length seq" "\<forall>i<length seq. \<not> m ! i \<longrightarrow> s1 ! i = seq ! i"
    by simp_all
  have l1: "length s1 = length seq" using p1(1) same_lengths by blast
  note ih = "3.IH" [OF b lms]
  show ?case
  proof (intro allI impI)
    fix i assume i: "i < length (concat (seq # seqs))" and n: "\<not> concat (m # ms) ! i"
    show "concat r ! i = concat (seq # seqs) ! i"
    proof (cases "i < length seq")
      case True
      with n p1(2) lm l1 show ?thesis by (simp add: r nth_append)
    next
      case False
      with i n ih lm l1 show ?thesis by (simp add: r nth_append)
    qed
  qed
qed

lemma filter_zip_unchanged:
  assumes "length rs = length rows" and "length rows = length xs"
  shows "(\<forall>i<length rows. P (xs ! i) \<longrightarrow> rs ! i = rows ! i) \<Longrightarrow>
    map fst (filter (\<lambda>(row, x). P x) (zip rs xs)) = map fst (filter (\<lambda>(row, x). P x) (zip rows xs))"
  using assms
proof (induction rs rows xs rule: list_induct3)
  case Nil
  then show ?case by simp
next
  case (Cons r rs row rows x xs)
  from Cons.prems have h: "P x \<longrightarrow> r = row" by auto
  from Cons.prems have "\<forall>i<length rows. P (xs ! i) \<longrightarrow> rs ! i = rows ! i" by auto
  from Cons.IH [OF this] h show ?case by simp
qed

lemma filter_zip_map:
  "map fst (filter snd (zip rs (map P xs))) = map fst (filter (\<lambda>(row, x). P x) (zip rs xs))"
proof (induction rs arbitrary: xs)
  case Nil
  then show ?case by simp
next
  case (Cons r rs)
  then show ?case by (cases xs) simp_all
qed

lemma rows_at_mask:
  "rows_at r ids tok = map fst (filter snd (zip (concat r) (concat (map (map (\<lambda>t. t = tok)) ids))))"
  by (simp add: rows_at_def filter_zip_map map_concat [symmetric] del: map_concat)

lemma length_concat_eq:
  "map length a = map length b \<Longrightarrow> length (concat a) = length (concat b)"
  by (simp add: length_concat)


lemma map_map_length_imp:
  "map (map length) a = map (map length) b \<Longrightarrow> map length a = map length b"
proof (induction a arbitrary: b)
  case Nil
  then show ?case by simp
next
  case (Cons x a)
  then obtain y b' where "b = y # b'" by (cases b) auto
  with Cons show ?case using map_eq_imp_length_eq [of length x length y] by auto
qed

lemma scatter_token:
  assumes sc: "masked_scatter emb (map (map (\<lambda>t. t = tok)) ids) src = Inr r"
      and shp: "map length emb = map length ids"
  shows "map (map length) r = map (map length) emb"
    and "concat (rows_at r ids tok) = take (numel_masked emb (map (map (\<lambda>t. t = tok)) ids)) src"
    and "numel_masked emb (map (map (\<lambda>t. t = tok)) ids) \<le> length src"
    and "\<And>tok'. tok' \<noteq> tok \<Longrightarrow> rows_at r ids tok' = rows_at emb ids tok'"
    and "\<And>b s. b < length ids \<Longrightarrow> s < length (ids ! b) \<Longrightarrow> ids ! b ! s \<noteq> tok
           \<Longrightarrow> r ! b ! s = emb ! b ! s"
proof -
  let ?m = "map (map (\<lambda>t. t = tok)) ids"
  have lm: "map length ?m = map length emb" using shp by (simp add: o_def)
  note p = masked_scatter_props [OF sc lm]
  show "map (map length) r = map (map length) emb" by (rule p(1))
  show "concat (rows_at r ids tok) = take (numel_masked emb ?m) src"
    unfolding rows_at_mask by (rule p(2))
  show "numel_masked emb ?m \<le> length src" by (rule p(3))
  show "r ! b ! s = emb ! b ! s" if "b < length ids" "s < length (ids ! b)" "ids ! b ! s \<noteq> tok" for b s
  proof -
    have lb: "length emb = length ids" using shp same_lengths by blast
    have "length (emb ! b) = length (ids ! b)"
      using shp that(1) lb by (metis length_map nth_map)
    with that lb show ?thesis by (intro p(4)) simp_all
  qed
  show "rows_at r ids tok' = rows_at emb ids tok'" if ne: "tok' \<noteq> tok" for tok'
  proof -
    from sc obtain rest where b: "masked_scatter_batch emb ?m src = Inr (r, rest)"
      by (auto simp: masked_scatter_def ebind_eq_Inr)
    note u = scatter_batch_flat_unchanged [OF b lm]
    have l1: "length (concat r) = length (concat emb)"
      using map_map_length_imp [OF p(1)] by (rule length_concat_eq)
    have l2: "length (concat emb) = length (concat ids)"
      using shp by (rule length_concat_eq)
    have "\<forall>i<length (concat emb). concat ids ! i = tok' \<longrightarrow> concat r ! i = concat emb ! i"
    proof (intro allI impI)
      fix i assume i: "i < length (concat emb)" and t: "concat ids ! i = tok'"
      have "concat ?m = map (\<lambda>t. t = tok) (concat ids)" by (simp add: map_concat)
      then have "concat ?m ! i = (concat ids ! i = tok)" using i l2 by simp
      with t ne have "\<not> concat ?m ! i" by simp
      with u i show "concat r ! i = concat emb ! i" by blast
    qed
    from filter_zip_unchanged [OF l1 l2, of "\<lambda>x. x = tok'", OF this]
    show ?thesis by (simp add: rows_at_def)
  qed
qed


lemma special_mask_ids [simp]:
  "special_mask e (Some ids) emb tok = map (map (\<lambda>t. t = tok)) ids"
  by (simp add: special_mask_def)

lemma merge_image_Some:
  assumes "merge_image_features e tok c (Some ids) emb (Some f) = Inr r"
  shows "masked_scatter emb (map (map (\<lambda>t. t = tok)) ids) (concat (concat f)) = Inr r"
    and "\<not> c \<Longrightarrow> numel_masked emb (map (map (\<lambda>t. t = tok)) ids) = length (concat (concat f))"
  using assms by (auto simp: merge_image_features_def Let_def split: if_splits)

lemma merge_ts_Some:
  assumes "merge_time_series_features e tok c (Some ids) emb (Some (tf, pm)) = Inr r"
  shows "\<exists>valid. select_valid tf pm = Inr valid
           \<and> masked_scatter emb (map (map (\<lambda>t. t = tok)) ids) (concat valid) = Inr r
           \<and> (\<not> c \<longrightarrow> numel_masked emb (map (map (\<lambda>t. t = tok)) ids) = length (concat valid))"
  using assms
  by (auto simp: merge_time_series_features_def Let_def ebind_eq_Inr split: if_splits)

lemma stage_props:
  assumes sc: "masked_scatter emb (map (map (\<lambda>t. t = tok)) ids) src = Inr r"
      and shp: "map length emb = map length ids"
  shows "\<exists>rest. src = concat (rows_at r ids tok) @ rest"
    and "numel_masked emb (map (map (\<lambda>t. t = tok)) ids) = length src
           \<Longrightarrow> concat (rows_at r ids tok) = src"
proof -
  note p = scatter_token [OF sc shp]
  have "src = take (numel_masked emb (map (map (\<lambda>t. t = tok)) ids)) src
            @ drop (numel_masked emb (map (map (\<lambda>t. t = tok)) ids)) src" by simp
  then show "\<exists>rest. src = concat (rows_at r ids tok) @ rest"
    unfolding p(2) [symmetric] by blast
  show "concat (rows_at r ids tok) = src"
    if "numel_masked emb (map (map (\<lambda>t. t = tok)) ids) = length src"
    using p(2) that by simp
qed

text \<open>
  C1, as amended.  For every call of \<^verbatim>\<open>InternS1Model.forward\<close> with \<open>input_ids\<close> given that
  returns, the language model receives embeddings of the shape of the token embeddings in
  which
  \<^item> if \<^verbatim>\<open>pixel_values\<close> is given (and no time series is given, or the two placeholder
    ids differ), the rows at the positions of \<open>image_token_id\<close>, in order, are an initial
    part of the flattened image features, and all of them when not compiling;
  \<^item> if \<^verbatim>\<open>time_series_signals\<close> is given, the rows at the positions of
    \<open>ts_context_token_id\<close>, in order, are an initial part of the flattened non-padding
    time-series features, and all of them when not compiling;
  \<^item> every position that is not the placeholder of a modality that is given holds the
    embedding of its token.
\<close>

theorem merge_modalities_spec:
  assumes fwd: "InternS1Model_forward self lm compiling (Some ids) None image_features ts = Inr out"
  shows "\<exists>merged. out = lm merged
     \<and> map (map length) merged = map (map (\<lambda>t. length (embed_tokens self t))) ids
     \<and> (\<forall>feats. image_features = Some feats
            \<and> (ts = None \<or> model_image_token_id self \<noteq> model_ts_context_token_id self) \<longrightarrow>
          (\<exists>rest. concat (concat feats) = concat (rows_at merged ids (model_image_token_id self)) @ rest)
          \<and> (\<not> compiling \<longrightarrow>
                concat (rows_at merged ids (model_image_token_id self)) = concat (concat feats)))
     \<and> (\<forall>tf pm. ts = Some (tf, pm) \<longrightarrow>
          (\<exists>valid. select_valid tf pm = Inr valid
             \<and> (\<exists>rest. concat valid = concat (rows_at merged ids (model_ts_context_token_id self)) @ rest)
             \<and> (\<not> compiling \<longrightarrow>
                   concat (rows_at merged ids (model_ts_context_token_id self)) = concat valid)))
     \<and> (\<forall>b s. b < length ids \<and> s < length (ids ! b)
            \<and> (image_features = None \<or> ids ! b ! s \<noteq> model_image_token_id self)
            \<and> (ts = None \<or> ids ! b ! s \<noteq> model_ts_context_token_id self) \<longrightarrow>
          merged ! b ! s = embed_tokens self (ids ! b ! s))"
proof -
  let ?e = "embed_tokens self"
  let ?it = "model_image_token_id self"
  let ?tt = "model_ts_context_token_id self"
  let ?emb = "map (map ?e) ids"
  from fwd obtain e1 e2 where
    s1: "merge_image_features ?e ?it compiling (Some ids) ?emb image_features = Inr e1"
    and s2: "merge_time_series_features ?e ?tt compiling (Some ids) e1 ts = Inr e2"
    and out: "out = lm e2"
    by (auto simp: InternS1Model_forward_def Let_def ebind_eq_Inr)
  have shp0: "map length ?emb = map length ids" by (simp add: o_def)
  \<comment> \<open>the image stage\<close>
  have i_shape: "map (map length) e1 = map (map length) ?emb"
    and i_rows: "\<And>feats. image_features = Some feats \<Longrightarrow>
          (\<exists>rest. concat (concat feats) = concat (rows_at e1 ids ?it) @ rest)
          \<and> (\<not> compiling \<longrightarrow> concat (rows_at e1 ids ?it) = concat (concat feats))"
    and i_same: "\<And>b s. b < length ids \<Longrightarrow> s < length (ids ! b)
          \<Longrightarrow> image_features = None \<or> ids ! b ! s \<noteq> ?it \<Longrightarrow> e1 ! b ! s = ?emb ! b ! s"
  proof -
    show "map (map length) e1 = map (map length) ?emb"
    proof (cases image_features)
      case None
      with s1 show ?thesis by (simp add: merge_image_features_def)
    next
      case (Some f)
      from merge_image_Some(1) [OF s1 [unfolded Some]] shp0 show ?thesis
        by (rule scatter_token(1))
    qed
    show "(\<exists>rest. concat (concat feats) = concat (rows_at e1 ids ?it) @ rest)
          \<and> (\<not> compiling \<longrightarrow> concat (rows_at e1 ids ?it) = concat (concat feats))"
      if f: "image_features = Some feats" for feats
      using stage_props [OF merge_image_Some(1) [OF s1 [unfolded f]] shp0]
        merge_image_Some(2) [OF s1 [unfolded f]] by blast
    show "e1 ! b ! s = ?emb ! b ! s"
      if "b < length ids" "s < length (ids ! b)" "image_features = None \<or> ids ! b ! s \<noteq> ?it" for b s
    proof (cases image_features)
      case None
      with s1 show ?thesis by (simp add: merge_image_features_def)
    next
      case (Some f)
      with that(3) have "ids ! b ! s \<noteq> ?it" by simp
      from scatter_token(5) [OF merge_image_Some(1) [OF s1 [unfolded Some]] shp0 that(1,2) this]
      show ?thesis .
    qed
  qed
  have shp1: "map length e1 = map length ids"
    using map_map_length_imp [OF i_shape] shp0 by simp
  \<comment> \<open>the time-series stage\<close>
  have t_shape: "map (map length) e2 = map (map length) e1"
  proof (cases ts)
    case None
    with s2 show ?thesis by (simp add: merge_time_series_features_def)
  next
    case (Some p)
    obtain tf pm where p: "p = (tf, pm)" by (cases p)
    from merge_ts_Some [OF s2 [unfolded Some p]] obtain valid where
      "masked_scatter e1 (map (map (\<lambda>t. t = ?tt)) ids) (concat valid) = Inr e2" by blast
    from this shp1 show ?thesis by (rule scatter_token(1))
  qed
  have t_rows: "\<exists>valid. select_valid tf pm = Inr valid
             \<and> (\<exists>rest. concat valid = concat (rows_at e2 ids ?tt) @ rest)
             \<and> (\<not> compiling \<longrightarrow> concat (rows_at e2 ids ?tt) = concat valid)"
    if t: "ts = Some (tf, pm)" for tf pm
  proof -
    from merge_ts_Some [OF s2 [unfolded t]] obtain valid where
      v: "select_valid tf pm = Inr valid"
      and sc: "masked_scatter e1 (map (map (\<lambda>t. t = ?tt)) ids) (concat valid) = Inr e2"
      and n: "\<not> compiling \<longrightarrow> numel_masked e1 (map (map (\<lambda>t. t = ?tt)) ids) = length (concat valid)"
      by blast
    from stage_props [OF sc shp1] v n show ?thesis by blast
  qed
  have t_same: "e2 ! b ! s = e1 ! b ! s"
    if "b < length ids" "s < length (ids ! b)" "ts = None \<or> ids ! b ! s \<noteq> ?tt" for b s
  proof (cases ts)
    case None
    with s2 show ?thesis by (simp add: merge_time_series_features_def)
  next
    case (Some p)
    obtain tf pm where p: "p = (tf, pm)" by (cases p)
    from merge_ts_Some [OF s2 [unfolded Some p]] obtain valid where
      sc: "masked_scatter e1 (map (map (\<lambda>t. t = ?tt)) ids) (concat valid) = Inr e2" by blast
    from that(3) Some have "ids ! b ! s \<noteq> ?tt" by simp
    from scatter_token(5) [OF sc shp1 that(1,2) this] show ?thesis .
  qed
  have t_other: "rows_at e2 ids ?it = rows_at e1 ids ?it" if "ts = None \<or> ?it \<noteq> ?tt"
  proof (cases ts)
    case None
    with s2 show ?thesis by (simp add: merge_time_series_features_def)
  next
    case (Some p)
    obtain tf pm where p: "p = (tf, pm)" by (cases p)
    from merge_ts_Some [OF s2 [unfolded Some p]] obtain valid where
      sc: "masked_scatter e1 (map (map (\<lambda>t. t = ?tt)) ids) (concat valid) = Inr e2" by blast
    from that Some have "?it \<noteq> ?tt" by simp
    from scatter_token(4) [OF sc shp1 this] show ?thesis .
  qed
  \<comment> \<open>together\<close>
  have c1: "map (map length) e2 = map (map (\<lambda>t. length (?e t))) ids"
    using t_shape i_shape by (simp add: o_def)
  have c2: "\<forall>feats. image_features = Some feats \<and> (ts = None \<or> ?it \<noteq> ?tt) \<longrightarrow>
          (\<exists>rest. concat (concat feats) = concat (rows_at e2 ids ?it) @ rest)
          \<and> (\<not> compiling \<longrightarrow> concat (rows_at e2 ids ?it) = concat (concat feats))"
    using i_rows t_other by simp
  have c3: "\<forall>tf pm. ts = Some (tf, pm) \<longrightarrow>
          (\<exists>valid. select_valid tf pm = Inr valid
             \<and> (\<exists>rest. concat valid = concat (rows_at e2 ids ?tt) @ rest)
             \<and> (\<not> compiling \<longrightarrow> concat (rows_at e2 ids ?tt) = concat valid))"
    using t_rows by blast
  have c4: "\<forall>b s. b < length ids \<and> s < length (ids ! b)
            \<and> (image_features = None \<or> ids ! b ! s \<noteq> ?it)
            \<and> (ts = None \<or> ids ! b ! s \<noteq> ?tt) \<longrightarrow>
          e2 ! b ! s = ?e (ids ! b ! s)"
  proof (intro allI impI)
    fix b s
    assume h: "b < length ids \<and> s < length (ids ! b)
            \<and> (image_features = None \<or> ids ! b ! s \<noteq> ?it)
            \<and> (ts = None \<or> ids ! b ! s \<noteq> ?tt)"
    then have "e2 ! b ! s = e1 ! b ! s" using t_same by blast
    also have "e1 ! b ! s = ?emb ! b ! s" using h i_same by blast
    also have "?emb ! b ! s = ?e (ids ! b ! s)" using h by simp
    finally show "e2 ! b ! s = ?e (ids ! b ! s)" .
  qed
  from out c1 c2 c3 c4 show ?thesis by blast
qed


theorem merge_modalities_spec_witness:
  "InternS1Model_forward example_model id False (Some [[1, 7, 8], [7, 2, 8]]) None
     (Some [[[10, 11], [12, 13]]])
     (Some ([[[20, 21], [22, 23]], [[24, 25], [26, 27]]], [[False, True], [False, True]]))
     = Inr [[[1, 101], [10, 11], [20, 21]], [[12, 13], [2, 102], [24, 25]]]
   \<and> concat (rows_at [[[1, 101], [10, 11], [20, 21]], [[12, 13], [2, 102], [24, 25 :: int]]]
                [[1, 7, 8], [7, 2, 8]] (model_image_token_id example_model))
       = concat (concat [[[10, 11], [12, 13]]])
   \<and> concat (rows_at [[[1, 101], [10, 11], [20, 21]], [[12, 13], [2, 102], [24, 25 :: int]]]
                [[1, 7, 8], [7, 2, 8]] (model_ts_context_token_id example_model))
       = concat [[20, 21], [24, 25]]
   \<and> select_valid [[[20, 21], [22, 23]], [[24, 25], [26, 27]]] [[False, True], [False, True]]
       = Inr [[20, 21], [24, 25 :: int]]"
proof -
  let ?ids = "[[1, 7, 8], [7, 2, 8 :: int]]"
  let ?img = "[[[10, 11], [12, 13 :: int]]]"
  let ?tf = "[[[20, 21], [22, 23]], [[24, 25], [26, 27 :: int]]]"
  let ?pm = "[[False, True], [False, True]]"
  let ?merged = "[[[1, 101], [10, 11], [20, 21]], [[12, 13], [2, 102], [24, 25 :: int]]]"
  have fwd: "InternS1Model_forward example_model id False (Some ?ids) None (Some ?img) (Some (?tf, ?pm))
     = Inr ?merged"
    by code_simp
  have v: "select_valid ?tf ?pm = Inr [[20, 21], [24, 25]]" by code_simp
  have d: "model_image_token_id example_model \<noteq> model_ts_context_token_id example_model"
    by (simp add: example_model_def)
  from merge_modalities_spec [OF fwd] obtain merged where
    m: "?merged = id merged"
    and i: "\<forall>feats. Some ?img = Some feats
            \<and> (Some (?tf, ?pm) = None
                \<or> model_image_token_id example_model \<noteq> model_ts_context_token_id example_model) \<longrightarrow>
          (\<not> False \<longrightarrow>
                concat (rows_at merged ?ids (model_image_token_id example_model)) = concat (concat feats))"
    and t: "\<forall>tf pm. Some (?tf, ?pm) = Some (tf, pm) \<longrightarrow>
          (\<exists>valid. select_valid tf pm = Inr valid
             \<and> (\<not> False \<longrightarrow>
                   concat (rows_at merged ?ids (model_ts_context_token_id example_model)) = concat valid))"
    by blast
  from m have mm: "merged = ?merged" by simp
  from i d have i': "concat (rows_at ?merged ?ids (model_image_token_id example_model))
      = concat (concat ?img)" unfolding mm by blast
  from t v have t': "concat (rows_at ?merged ?ids (model_ts_context_token_id example_model))
      = concat [[20, 21], [24, 25]]" unfolding mm by auto
  from fwd i' t' v show ?thesis by blast
qed

text \<open>
  C1 as stated speaks of every call with \<open>input_ids\<close>.  In a call without
  \<^verbatim>\<open>pixel_values\<close> the block that merges the image features is skipped: the position of
  an image token keeps the embedding of the token.
\<close>

theorem image_token_without_pixel_values:
  "InternS1Model_forward example_model id False (Some [[7, 1]]) None None None
     = Inr [[example_embed 7, example_embed 1]]
   \<and> rows_at [[example_embed 7, example_embed 1]] [[7, 1]] (model_image_token_id example_model)
       = [example_embed 7]"
  by code_simp

end
